theory Spec2Isabelle
  imports Main "HOL-Library.Word"
begin

unbundle bit_operations_syntax

section \<open>CoinbaseGuard: data model\<close>

text \<open>
  A shallow embedding of \<^verbatim>\<open>src/cc/CoinbaseGuard.cpp\<close>. Byte vectors are lists of
  8-bit words, \<^verbatim>\<open>uint32_t\<close> is a 32-bit word, \<^verbatim>\<open>CAmount\<close> (a signed 64-bit amount that
  is only compared with 0 here) is an integer. A \<^verbatim>\<open>CScript\<close> is the byte vector it
  derives from. An out-of-range \<^verbatim>\<open>operator[]\<close> and a failed assertion are faults, kept as
  values of the result type.
\<close>

type_synonym byte = "8 word"
type_synonym bytes = "byte list"
type_synonym uint32 = "32 word"
type_synonym uint256 = bytes
type_synonym CScript = bytes
type_synonym CPubKey = bytes
type_synonym opcodetype = nat

datatype fault = OutOfRange | AssertFailed

datatype txnouttype =
  TX_NONSTANDARD | TX_PUBKEY | TX_PUBKEYHASH | TX_SCRIPTHASH | TX_MULTISIG
  | TX_CRYPTOCONDITION | TX_NULL_DATA

record COutPoint =
  op_hash :: uint256
  op_n :: uint32

record CTxIn =
  prevout :: COutPoint
  scriptSig :: CScript

record CTxOut =
  nValue :: int
  scriptPubKey :: CScript

record CTransaction =
  nVersion :: int
  vin :: "CTxIn list"
  vout :: "CTxOut list"
  nLockTime :: uint32

text \<open>Modelled from the spec: the fields of \<^verbatim>\<open>CStakeParams\<close> are declared in the
  header, which is not part of this file; the spec gives both heights as unsigned 32-bit
  integers, the hash as 256 bits and the key as optional.\<close>

record CStakeParams =
  srcHeight :: uint32
  blkHeight :: uint32
  prevHash :: uint256
  pk :: CPubKey

record COptCCParams =
  ccp_version :: nat
  ccp_evalCode :: nat
  ccp_m :: nat
  ccp_n :: nat
  ccp_vKeys :: "CPubKey list"
  ccp_vData :: "bytes list"

record CC =
  cc_code :: nat

text \<open>One call of \<^verbatim>\<open>CScript::GetOp(pc, op, vch)\<close>: the opcode and the pushed data, or
  the call returning false.\<close>

datatype GetOp_result = GetOp_ok opcodetype bytes | GetOp_fail

text \<open>
  Everything \<^verbatim>\<open>CoinbaseGuard.cpp\<close> calls or reads that is declared elsewhere (script
  parsing and building, the opcode table, public keys, the chain lookups, the script
  interpreter, the hash writer, the serializer, configuration constants and the default
  argument of the header) is a field of the environment. \<open>GetOp_seq data\<close> is the
  sequence of results of the successive \<^verbatim>\<open>data.GetOp\<close> calls from \<^verbatim>\<open>data.begin()\<close> until
  \<^verbatim>\<open>pc == data.end()\<close>; a script is finite and every successful call advances
  \<^verbatim>\<open>pc\<close>, so the sequence is a list. Heights of block index entries and
  \<^verbatim>\<open>VERUS_MIN_STAKEAGE\<close> are \<^verbatim>\<open>int32_t\<close>; the source only compares them with
  \<^verbatim>\<open>uint32_t\<close> values, which converts them to \<^verbatim>\<open>uint32_t\<close>, so the environment holds
  their 32-bit patterns.
\<close>

record Env =
  OP_PUSHDATA4 :: opcodetype
  OP_1 :: opcodetype
  OP_16 :: opcodetype
  OP_RETURN :: opcodetype
  OP_DROP :: opcodetype
  OPRETTYPE_STAKEPARAMS :: nat
  OPRETTYPE_STAKECHEAT :: nat
  EVAL_COINBASEGUARD :: nat
  COptCCParams_VERSION :: nat
  nMaxDatacarrierBytes :: uint32
  VERUS_MIN_STAKEAGE :: uint32
  ValidateStakeTransaction_default_validateSig :: bool
  IsOpReturn :: "CScript \<Rightarrow> bool"
  GetOpretData :: "CScript \<Rightarrow> bool \<times> bytes list"
  GetOp_seq :: "CScript \<Rightarrow> GetOp_result list"
  push_opcode :: "CScript \<Rightarrow> opcodetype \<Rightarrow> CScript"
  push_int64 :: "CScript \<Rightarrow> nat \<Rightarrow> CScript"
  push_data :: "CScript \<Rightarrow> bytes \<Rightarrow> CScript"
  CPubKey_IsValid :: "CPubKey \<Rightarrow> bool"
  CPubKey_IsFullyValid :: "CPubKey \<Rightarrow> bool"
  IsCoinBase :: "CTransaction \<Rightarrow> bool"
  myGetTransaction :: "uint256 \<Rightarrow> (CTransaction \<times> uint256) option"
  mapBlockIndex :: "uint256 \<Rightarrow> uint32 option"
  Solver :: "CScript \<Rightarrow> bool \<times> txnouttype \<times> bytes list"
  CurrentEpochBranchId :: "uint32 \<Rightarrow> nat"
  VerifyScript :: "CScript \<Rightarrow> CScript \<Rightarrow> CTransaction \<Rightarrow> int \<Rightarrow> nat \<Rightarrow> bool"
  VerusHash_outpoint :: "uint256 \<Rightarrow> uint32 \<Rightarrow> uint256"
  CCaddress :: CPubKey
  MakeCC1of2vout :: "nat \<Rightarrow> int \<Rightarrow> CPubKey \<Rightarrow> CPubKey \<Rightarrow> CTxOut"
  COptCCParams_AsVector :: "COptCCParams \<Rightarrow> bytes"
  COptCCParams_parse :: "bytes \<Rightarrow> COptCCParams"
  COptCCParams_IsValid :: "COptCCParams \<Rightarrow> bool"
  IsPayToCryptoCondition :: "CScript \<Rightarrow> bool \<times> bytes list"
  Serialize_tx :: "CTransaction \<Rightarrow> bytes"
  Unserialize_tx :: "bytes \<Rightarrow> CTransaction option"
  GetCryptoCondition :: "CScript \<Rightarrow> CC option"
  GetCCParams :: "CTransaction \<Rightarrow> uint32 \<Rightarrow> (CTransaction \<times> bytes list \<times> bytes list) option"

text \<open>\<^verbatim>\<open>v[i]\<close> on a \<^verbatim>\<open>std::vector\<close>: a read outside the vector is a fault.\<close>

definition nth_checked :: "'a list \<Rightarrow> nat \<Rightarrow> fault + 'a" where
  "nth_checked xs i = (if i < length xs then Inr (xs ! i) else Inl OutOfRange)"

text \<open>Modelled from the spec: \<^verbatim>\<open>uint256\<close> (declared outside this file) is a 256-bit
  hash, that is 32 bytes; its constructor from a byte vector takes 32 bytes and nothing
  else, so any other length is a fault.\<close>

definition uint256_of_vector :: "bytes \<Rightarrow> fault + uint256" where
  "uint256_of_vector v = (if length v = 32 then Inr v else Inl AssertFailed)"

text \<open>Modelled from the spec: the default \<^verbatim>\<open>uint256()\<close>, the hash of 32 zero bytes.\<close>

definition uint256_zero :: uint256 where
  "uint256_zero = replicate 32 0"

text \<open>The default-constructed \<^verbatim>\<open>CPubKey()\<close> holds no key bytes.\<close>

definition CPubKey_null :: CPubKey where
  "CPubKey_null = []"

text \<open>Modelled from the spec: the bounds \<^verbatim>\<open>CStakeParams::STAKE_MINPARAMS\<close> and
  \<^verbatim>\<open>STAKE_MAXPARAMS\<close> are declared in the header, which is not part of this file.
  The spec gives the chunk count as 4 or 5, and the constructor compares the size
  with the literal 4 where it takes the key as absent.\<close>

definition STAKE_MINPARAMS :: nat where
  "STAKE_MINPARAMS = 4"

definition STAKE_MAXPARAMS :: nat where
  "STAKE_MAXPARAMS = 5"

text \<open>Modelled from the spec: \<^verbatim>\<open>CStakeParams::IsValid\<close> is declared in the header.
  The spec gives \<open>sourceHeight = 0\<close> as the sentinel of an invalid decode, and the
  constructor invalidates by \<^verbatim>\<open>srcHeight = 0\<close>.\<close>

definition CStakeParams_IsValid :: "CStakeParams \<Rightarrow> bool" where
  "CStakeParams_IsValid p = (srcHeight p \<noteq> 0)"

text \<open>Modelled from the spec: the default constructor of \<^verbatim>\<open>CStakeParams\<close> is declared in
  the header. Its value is the sentinel-invalid one: heights 0, the zero hash and no
  key, which is also what the constructor from chunks leaves when its test fails.\<close>

definition CStakeParams_default :: CStakeParams where
  "CStakeParams_default =
     \<lparr>srcHeight = 0, blkHeight = 0, prevHash = uint256_zero, pk = CPubKey_null\<rparr>"

section \<open>Stake metadata codec\<close>

definition IsData :: "Env \<Rightarrow> opcodetype \<Rightarrow> bool" where
  "IsData env opcode =
     ((0 \<le> opcode \<and> opcode \<le> OP_PUSHDATA4 env) \<or> (OP_1 env \<le> opcode \<and> opcode \<le> OP_16 env))"

text \<open>
  The \<^verbatim>\<open>for\<close> loop of \<^verbatim>\<open>UnpackStakeOpRet\<close>. The arguments are the remaining
  \<^verbatim>\<open>GetOp\<close> results and the loop state \<open>isValid\<close>, \<open>bytesTotal\<close>, \<open>vData\<close>. The loop
  condition assigns \<open>isValid\<close> only when \<open>bytesTotal \<le> nMaxDatacarrierBytes\<close> holds;
  otherwise \<open>isValid\<close> keeps the value of the previous evaluation. \<open>bytesTotal\<close> is a
  \<^verbatim>\<open>uint32_t\<close>, its additions wrap.
\<close>

fun UnpackStakeOpRet_loop ::
  "Env \<Rightarrow> GetOp_result list \<Rightarrow> bool \<Rightarrow> uint32 \<Rightarrow> bytes list \<Rightarrow> bool \<times> bytes list" where
  "UnpackStakeOpRet_loop env [] isValid bytesTotal vData =
     (if bytesTotal \<le> nMaxDatacarrierBytes env then (True, vData) else (isValid, vData))"
| "UnpackStakeOpRet_loop env (GetOp_fail # rest) isValid bytesTotal vData =
     (if bytesTotal \<le> nMaxDatacarrierBytes env then (False, vData) else (isValid, vData))"
| "UnpackStakeOpRet_loop env (GetOp_ok op vch # rest) isValid bytesTotal vData =
     (if bytesTotal \<le> nMaxDatacarrierBytes env then
        (if IsData env op then
           (let vch' = (if OP_1 env \<le> op \<and> op \<le> OP_16 env
                        then [of_nat ((op - OP_1 env) + 1)] else vch)
            in UnpackStakeOpRet_loop env rest False
                 (bytesTotal + of_nat (length vch')) (vData @ [vch']))
         else (False, vData))
      else (isValid, vData))"

text \<open>\<^verbatim>\<open>UnpackStakeOpRet\<close> returns its boolean and the out-parameter \<open>vData\<close>.\<close>

definition UnpackStakeOpRet :: "Env \<Rightarrow> CTransaction \<Rightarrow> fault + (bool \<times> bytes list)" where
  "UnpackStakeOpRet env stakeTx =
     (case nth_checked (vout stakeTx) (length (vout stakeTx) - 1) of
        Inl e \<Rightarrow> Inl e
      | Inr out \<Rightarrow>
          (case GetOpretData env (scriptPubKey out) of
             (isValid, vData) \<Rightarrow>
               if isValid \<and> length vData = 1 then
                 (case UnpackStakeOpRet_loop env (GetOp_seq env (vData ! 0)) isValid 0 [] of
                    (isValid', vData') \<Rightarrow>
                      if isValid' \<and> STAKE_MINPARAMS \<le> length vData'
                         \<and> length vData' \<le> STAKE_MAXPARAMS
                      then Inr (True, vData') else Inr (False, vData'))
               else Inr (False, vData)))"

text \<open>The two decoding loops of the constructor:
  \<^verbatim>\<open>h = h | v[i] << (8 * i)\<close> for \<open>i\<close> from the given index on.\<close>

fun height_of_LE :: "bytes \<Rightarrow> nat \<Rightarrow> uint32 \<Rightarrow> uint32" where
  "height_of_LE [] i h = h"
| "height_of_LE (b # bs) i h = height_of_LE bs (Suc i) (h OR push_bit (8 * i) (ucast b))"

text \<open>
  \<^verbatim>\<open>CStakeParams::CStakeParams(vData)\<close>. The members start as \<open>srcHeight = 0\<close>,
  \<open>blkHeight = 0\<close> and the default hash and key. The condition of the \<^verbatim>\<open>if\<close> is
  evaluated left to right and stops at the first false conjunct; every \<^verbatim>\<open>vData[k]\<close> is
  a checked read. In \<^verbatim>\<open>h | vData[1][i] << (8 * i)\<close> the byte is promoted to \<^verbatim>\<open>int\<close>,
  shifted and converted to \<^verbatim>\<open>uint32_t\<close> by the \<^verbatim>\<open>|\<close>, which keeps the low 32 bits.
\<close>

definition CStakeParams_cond :: "Env \<Rightarrow> bytes list \<Rightarrow> fault + bool" where
  "CStakeParams_cond env vData =
     (case nth_checked vData 0 of Inl e \<Rightarrow> Inl e | Inr v0 \<Rightarrow>
      if \<not> (length v0 = 1 \<and> unat (v0 ! 0) = OPRETTYPE_STAKEPARAMS env) then Inr False else
     (case nth_checked vData 1 of Inl e \<Rightarrow> Inl e | Inr v1 \<Rightarrow>
      if \<not> length v1 \<le> 4 then Inr False else
     (case nth_checked vData 2 of Inl e \<Rightarrow> Inl e | Inr v2 \<Rightarrow>
      if \<not> length v2 \<le> 4 then Inr False else
     (case nth_checked vData 3 of Inl e \<Rightarrow> Inl e | Inr v3 \<Rightarrow>
      if \<not> length v3 = 32 then Inr False else
      if length vData = STAKE_MINPARAMS then Inr True else
      if \<not> length vData = STAKE_MAXPARAMS then Inr False else
     (case nth_checked vData 4 of Inl e \<Rightarrow> Inl e | Inr v4 \<Rightarrow> Inr (length v4 = 33))))))"

definition CStakeParams_body :: "Env \<Rightarrow> bytes list \<Rightarrow> fault + CStakeParams" where
  "CStakeParams_body env vData =
     (case nth_checked vData 1 of Inl e \<Rightarrow> Inl e | Inr v1 \<Rightarrow>
     (case nth_checked vData 2 of Inl e \<Rightarrow> Inl e | Inr v2 \<Rightarrow>
     (case nth_checked vData 3 of Inl e \<Rightarrow> Inl e | Inr v3 \<Rightarrow>
     (case uint256_of_vector v3 of Inl e \<Rightarrow> Inl e | Inr h3 \<Rightarrow>
      (let p = CStakeParams_default
                 \<lparr>srcHeight := height_of_LE v1 0 0,
                  blkHeight := height_of_LE v2 0 0,
                  prevHash := h3\<rparr>
       in if length vData = 4 then Inr (p\<lparr>pk := CPubKey_null\<rparr>)
          else
            (case nth_checked vData 4 of Inl e \<Rightarrow> Inl e | Inr v4 \<Rightarrow>
               if length v4 = 33 then
                 (if \<not> CPubKey_IsValid env v4 then Inr (p\<lparr>pk := v4, srcHeight := 0\<rparr>)
                  else Inr (p\<lparr>pk := v4\<rparr>))
               else Inr (p\<lparr>srcHeight := 0\<rparr>)))))))"

definition CStakeParams_of_vData :: "Env \<Rightarrow> bytes list \<Rightarrow> fault + CStakeParams" where
  "CStakeParams_of_vData env vData =
     (case CStakeParams_cond env vData of
        Inl e \<Rightarrow> Inl e
      | Inr c \<Rightarrow> if c then CStakeParams_body env vData else Inr CStakeParams_default)"

text \<open>\<^verbatim>\<open>GetStakeParams\<close> returns its boolean and the out-parameter \<open>stakeParams\<close>,
  which it assigns only after the structural checks and the unpacking succeeded.\<close>

definition GetStakeParams ::
  "Env \<Rightarrow> CTransaction \<Rightarrow> CStakeParams \<Rightarrow> fault + (bool \<times> CStakeParams)" where
  "GetStakeParams env stakeTx stakeParams =
     (if length (vin stakeTx) = 1 \<and> length (vout stakeTx) = 2
         \<and> 0 < nValue (vout stakeTx ! 0)
         \<and> IsOpReturn env (scriptPubKey (vout stakeTx ! 1))
      then
        (case UnpackStakeOpRet env stakeTx of
           Inl e \<Rightarrow> Inl e
         | Inr (ok, vData) \<Rightarrow>
             if ok then
               (case CStakeParams_of_vData env vData of
                  Inl e \<Rightarrow> Inl e
                | Inr p \<Rightarrow> Inr (CStakeParams_IsValid p, p))
             else Inr (False, stakeParams))
      else Inr (False, stakeParams))"

section \<open>Stake transaction validator\<close>

text \<open>
  The part of \<^verbatim>\<open>ValidateStakeTransaction\<close> after \<^verbatim>\<open>Solver\<close> succeeded: the staking
  key is taken from a pay-to-key source output when the metadata has none, then the
  script form and, when asked for, the signature are checked.
\<close>

definition ValidateStakeTransaction_solved ::
  "Env \<Rightarrow> CTransaction \<Rightarrow> CTxIn \<Rightarrow> CTxOut \<Rightarrow> txnouttype \<Rightarrow> bytes list \<Rightarrow> CStakeParams \<Rightarrow> bool
     \<Rightarrow> fault + (bool \<times> CStakeParams)" where
  "ValidateStakeTransaction_solved env stakeTx in0 srcOut txType vAddr stakeParams validateSig =
     (case (if txType = TX_PUBKEY \<and> \<not> CPubKey_IsValid env (pk stakeParams)
            then (case nth_checked vAddr 0 of
                    Inl e \<Rightarrow> Inl e
                  | Inr a \<Rightarrow> Inr (stakeParams\<lparr>pk := a\<rparr>))
            else Inr stakeParams) of
        Inl e \<Rightarrow> Inl e
      | Inr sp \<Rightarrow>
          if txType = TX_PUBKEY \<or> (txType = TX_PUBKEYHASH \<and> CPubKey_IsFullyValid env (pk sp))
          then
            (let consensusBranchId = CurrentEpochBranchId env (blkHeight sp)
             in if \<not> validateSig
                   \<or> VerifyScript env (scriptSig in0) (scriptPubKey srcOut) stakeTx
                        (nValue srcOut) consensusBranchId
                then Inr (True, sp) else Inr (False, sp))
          else Inr (False, sp))"

text \<open>
  \<^verbatim>\<open>ValidateStakeTransaction\<close> returns its boolean and the out-parameter \<open>stakeParams\<close>.
  The age test \<^verbatim>\<open>blkHeight - srcHeight >= VERUS_MIN_STAKEAGE\<close> subtracts two
  \<^verbatim>\<open>uint32_t\<close> values (the difference wraps) and compares unsigned. The chain lookups
  are read-only here: the block index is not part of the state of the model.
\<close>

definition ValidateStakeTransaction ::
  "Env \<Rightarrow> CTransaction \<Rightarrow> CStakeParams \<Rightarrow> bool \<Rightarrow> fault + (bool \<times> CStakeParams)" where
  "ValidateStakeTransaction env stakeTx stakeParams0 validateSig =
     (case GetStakeParams env stakeTx stakeParams0 of
        Inl e \<Rightarrow> Inl e
      | Inr (ok, stakeParams) \<Rightarrow>
          if \<not> ok then Inr (False, stakeParams) else
          (case nth_checked (vin stakeTx) 0 of
             Inl e \<Rightarrow> Inl e
           | Inr in0 \<Rightarrow>
               (case myGetTransaction env (op_hash (prevout in0)) of
                  None \<Rightarrow> Inr (False, stakeParams)
                | Some (srcTx, blkHash) \<Rightarrow>
                    (case mapBlockIndex env blkHash of
                       None \<Rightarrow> Inr (False, stakeParams)
                     | Some pindex_height \<Rightarrow>
                         if srcHeight stakeParams = pindex_height
                            \<and> VERUS_MIN_STAKEAGE env
                                \<le> blkHeight stakeParams - srcHeight stakeParams
                         then
                           (case nth_checked (vout srcTx) (unat (op_n (prevout in0))) of
                              Inl e \<Rightarrow> Inl e
                            | Inr srcOut \<Rightarrow>
                                (case Solver env (scriptPubKey srcOut) of
                                   (solved, txType, vAddr) \<Rightarrow>
                                     if solved then
                                       ValidateStakeTransaction_solved env stakeTx in0 srcOut
                                         txType vAddr stakeParams validateSig
                                     else Inr (False, stakeParams)))
                         else Inr (False, stakeParams)))))"

section \<open>Guarded output builder\<close>

text \<open>The loop \<^verbatim>\<open>height[i] = (p.blkHeight >> (8 * i)) & 0xff\<close> for \<open>i = 0..3\<close>.\<close>

definition height_bytes :: "uint32 \<Rightarrow> bytes" where
  "height_bytes h = map (\<lambda>i. ucast (drop_bit (8 * i) h AND 0xff)) [0..<4]"

text \<open>The metadata vector \<open>vData\<close> that \<^verbatim>\<open>MakeGuardedOutput\<close> gives to
  \<^verbatim>\<open>COptCCParams\<close>: fingerprint of the staked coin, previous block hash, target height.\<close>

definition GuardedOutput_vData :: "Env \<Rightarrow> CTxIn \<Rightarrow> CStakeParams \<Rightarrow> bytes list" where
  "GuardedOutput_vData env in0 p =
     [VerusHash_outpoint env (op_hash (prevout in0)) (op_n (prevout in0))]
       @ [prevHash p] @ [height_bytes (blkHeight p)]"

text \<open>\<^verbatim>\<open>MakeGuardedOutput\<close> returns its boolean and the out-parameter \<open>vout\<close>, which is
  assigned before the stake transaction is decoded.\<close>

definition MakeGuardedOutput ::
  "Env \<Rightarrow> int \<Rightarrow> CPubKey \<Rightarrow> CTransaction \<Rightarrow> fault + (bool \<times> CTxOut)" where
  "MakeGuardedOutput env value dest stakeTx =
     (let ccAddress = CCaddress env;
          vout0 = MakeCC1of2vout env (EVAL_COINBASEGUARD env) value dest ccAddress;
          vPubKeys = [dest, ccAddress]
      in case nth_checked (vin stakeTx) 0 of
           Inl e \<Rightarrow> Inl e
         | Inr in0 \<Rightarrow>
             (case GetStakeParams env stakeTx CStakeParams_default of
                Inl e \<Rightarrow> Inl e
              | Inr (ok, p) \<Rightarrow>
                  if ok then
                    (let ccp = \<lparr>ccp_version = COptCCParams_VERSION env,
                                ccp_evalCode = EVAL_COINBASEGUARD env,
                                ccp_m = 1, ccp_n = 2, ccp_vKeys = vPubKeys,
                                ccp_vData = GuardedOutput_vData env in0 p\<rparr>
                     in Inr (True,
                          vout0\<lparr>scriptPubKey :=
                            push_opcode env
                              (push_data env (scriptPubKey vout0) (COptCCParams_AsVector env ccp))
                              (OP_DROP env)\<rparr>))
                  else Inr (False, vout0)))"

section \<open>Matching-stake detector\<close>

text \<open>
  The height loop of \<^verbatim>\<open>ValidateMatchingStake\<close>:
  \<^verbatim>\<open>height = height << 8 + ccp.vData[2][i]\<close>. In C++ \<^verbatim>\<open>+\<close> binds tighter than
  \<^verbatim>\<open><<\<close>, so each step shifts \<open>height\<close> left by \<open>8 + byte\<close> bits and adds nothing.
  \<open>height\<close> is a \<^verbatim>\<open>uint32_t\<close>; \<open>push_bit\<close> on a 32-bit word drops the bits shifted out.
  The value that is shifted is 0 in every step, so the result does not depend on what
  a shift by 32 bits or more (a byte of 24 or more) does on the machine.
\<close>

fun MatchingStake_height :: "bytes \<Rightarrow> uint32 \<Rightarrow> uint32" where
  "MatchingStake_height [] height = height"
| "MatchingStake_height (b # bs) height = MatchingStake_height bs (push_bit (8 + unat b) height)"

text \<open>The comparison of the candidate with the metadata of the guarded output, once
  the fingerprint of the candidate's coin is computed.\<close>

definition MatchingStake_compare ::
  "Env \<Rightarrow> CTxIn \<Rightarrow> CStakeParams \<Rightarrow> bytes list \<Rightarrow> fault + (bool \<times> bool)" where
  "MatchingStake_compare env in0 p vData =
     (let utxo = VerusHash_outpoint env (op_hash (prevout in0)) (op_n (prevout in0));
          height = MatchingStake_height (vData ! 2) 0
      in case uint256_of_vector (vData ! 0) of
           Inl e \<Rightarrow> Inl e
         | Inr recorded_utxo \<Rightarrow>
             if utxo = recorded_utxo then
               (case uint256_of_vector (vData ! 1) of
                  Inl e \<Rightarrow> Inl e
                | Inr recorded_prevHash \<Rightarrow>
                    if prevHash p \<noteq> recorded_prevHash \<and> height \<le> blkHeight p
                    then Inr (True, True)
                    else if blkHeight p = height then Inr (True, False)
                    else Inr (False, False))
             else Inr (False, False))"

text \<open>\<^verbatim>\<open>ValidateMatchingStake\<close> returns its boolean and the out-parameter \<open>cheating\<close>, in
  this order. The call of \<^verbatim>\<open>ValidateStakeTransaction\<close> leaves \<open>validateSig\<close> to the
  default argument of the header.\<close>

definition ValidateMatchingStake ::
  "Env \<Rightarrow> CTransaction \<Rightarrow> uint32 \<Rightarrow> CTransaction \<Rightarrow> fault + (bool \<times> bool)" where
  "ValidateMatchingStake env ccTx voutNum stakeTx =
     (if IsCoinBase env ccTx then
        (case ValidateStakeTransaction env stakeTx CStakeParams_default
                (ValidateStakeTransaction_default_validateSig env) of
           Inl e \<Rightarrow> Inl e
         | Inr (ok, p) \<Rightarrow>
             if \<not> ok then Inr (False, False) else
             (case nth_checked (vout ccTx) (unat voutNum) of
                Inl e \<Rightarrow> Inl e
              | Inr out \<Rightarrow>
                  (case IsPayToCryptoCondition env (scriptPubKey out) of
                     (isCC, vParams) \<Rightarrow>
                       if isCC \<and> 0 < length vParams then
                         (let ccp = COptCCParams_parse env (vParams ! 0)
                          in if COptCCParams_IsValid env ccp \<and> 3 \<le> length (ccp_vData ccp)
                                \<and> length (ccp_vData ccp ! 2) \<le> 4
                             then
                               (case nth_checked (vin stakeTx) 0 of
                                  Inl e \<Rightarrow> Inl e
                                | Inr in0 \<Rightarrow> MatchingStake_compare env in0 p (ccp_vData ccp))
                             else Inr (False, False))
                       else Inr (False, False))))
      else Inr (False, False))"

section \<open>Cheat evidence builder\<close>

text \<open>The output that \<^verbatim>\<open>MakeCheatEvidence\<close> builds: value 0 and the script
  \<^verbatim>\<open>OP_RETURN\<close> followed by one push of the bytes of the script
  \<^verbatim>\<open>OPRETTYPE_STAKECHEAT, serialized cheatTx\<close>.\<close>

definition CheatEvidence_vOut :: "Env \<Rightarrow> CTransaction \<Rightarrow> CTxOut" where
  "CheatEvidence_vOut env cheatTx =
     (let vch = Serialize_tx env cheatTx;
          vData = push_data env (push_int64 env [] (OPRETTYPE_STAKECHEAT env)) vch
      in \<lparr>nValue = 0,
          scriptPubKey = push_data env (push_opcode env [] (OP_RETURN env)) vData\<rparr>)"

text \<open>\<^verbatim>\<open>MakeCheatEvidence\<close> is declared \<^verbatim>\<open>bool\<close> and has no \<^verbatim>\<open>return\<close> statement; what it
  does is the change of \<open>mtx\<close>, which the model returns.\<close>

definition MakeCheatEvidence ::
  "Env \<Rightarrow> CTransaction \<Rightarrow> CTransaction \<Rightarrow> uint32 \<Rightarrow> CTransaction \<Rightarrow> fault + CTransaction" where
  "MakeCheatEvidence env mtx ccTx voutNum cheatTx =
     (case ValidateMatchingStake env ccTx voutNum cheatTx of
        Inl e \<Rightarrow> Inl e
      | Inr (matches, isCheater) \<Rightarrow>
          if matches \<and> isCheater
          then Inr (mtx\<lparr>vout := vout mtx @ [CheatEvidence_vOut env cheatTx]\<rparr>)
          else Inr mtx)"

section \<open>Spend authorizer\<close>

text \<open>The block \<^verbatim>\<open>if (!signedByFirstKey && params.size() > 1 && params[0][0] == ...)\<close>
  of \<^verbatim>\<open>CoinbaseGuardValidate\<close>; its value is the new \<open>validCheat\<close>. The detector is
  called on \<open>txOut\<close>, on \<^verbatim>\<open>tx.vin[0].prevout.n\<close> and on the spending transaction \<open>tx\<close>;
  it writes its verdict into \<open>validCheat\<close>, and a false return resets it.\<close>

definition CoinbaseGuardValidate_cheat ::
  "Env \<Rightarrow> CTransaction \<Rightarrow> CTransaction \<Rightarrow> bytes list \<Rightarrow> bool \<Rightarrow> fault + bool" where
  "CoinbaseGuardValidate_cheat env tx txOut params signedByFirstKey =
     (if \<not> signedByFirstKey \<and> 1 < length params then
        (case nth_checked (params ! 0) 0 of
           Inl e \<Rightarrow> Inl e
         | Inr tag \<Rightarrow>
             if unat tag = OPRETTYPE_STAKECHEAT env then
               (case Unserialize_tx env (params ! 1) of
                  None \<Rightarrow> Inr False
                | Some cheatTx \<Rightarrow>
                    (case nth_checked (vin tx) 0 of
                       Inl e \<Rightarrow> Inl e
                     | Inr in0 \<Rightarrow>
                         (case ValidateMatchingStake env txOut (op_n (prevout in0)) tx of
                            Inl e \<Rightarrow> Inl e
                          | Inr (matches, cheating) \<Rightarrow>
                              Inr (if \<not> matches then False else cheating))))
             else Inr False)
      else Inr False)"

definition CoinbaseGuardValidate :: "Env \<Rightarrow> CTransaction \<Rightarrow> uint32 \<Rightarrow> fault + bool" where
  "CoinbaseGuardValidate env tx nIn =
     (case nth_checked (vin tx) (unat nIn) of
        Inl e \<Rightarrow> Inl e
      | Inr txin \<Rightarrow>
          (let cc = GetCryptoCondition env (scriptSig txin);
               signedByFirstKey = True;
               validCheat = False
           in case cc of
                None \<Rightarrow> Inr (signedByFirstKey \<or> validCheat)
              | Some c \<Rightarrow>
                  (case GetCCParams env tx nIn of
                     None \<Rightarrow> Inr (signedByFirstKey \<or> validCheat)
                   | Some (txOut, preConditions, params) \<Rightarrow>
                       (case (if 0 < length preConditions \<and> 0 < length params
                              then nth_checked preConditions 1 else Inr []) of
                          Inl e \<Rightarrow> Inl e
                        | Inr pre1 \<Rightarrow>
                            (case CoinbaseGuardValidate_cheat env tx txOut params
                                    signedByFirstKey of
                               Inl e \<Rightarrow> Inl e
                             | Inr validCheat' \<Rightarrow> Inr (signedByFirstKey \<or> validCheat'))))))"

section \<open>The structural invariant of the spec\<close>


section \<open>A test chain\<close>

text \<open>
  A concrete environment on which the functions are run. Its chain holds one coin,
  output 0 of the transaction \<open>test_coin_txid\<close>, a pay-to-key output confirmed at height
  2 in block \<open>test_coin_block\<close>. A stake transaction \<open>test_stake_tx src tgt h\<close> spends
  that coin and claims source height \<open>src\<close>, target height \<open>tgt\<close> and the previous block
  hash whose 32 bytes are all \<open>h\<close>; the script parser of the test chain reads the
  metadata of its second output as the four chunks tag, \<open>[src]\<close>, \<open>[tgt]\<close>, hash. The
  coinbase \<open>test_coinbase_tx\<close> has one guarded output, whose metadata is what
  \<open>GuardedOutput_vData\<close> records for the stake claim (source 2, target 20, previous hash
  \<open>test_H1\<close>) on that coin. The minimum stake age is 5 blocks. The heights are small, so
  that every byte of a height chunk is below 24 and every shift of the detector's height
  loop is by less than 32 bits. \<open>test_spend_tx\<close> spends the guarded output with a
  fulfillment and without evidence parameters.
\<close>

definition test_H1 :: uint256 where
  "test_H1 = replicate 32 1"

definition test_coin_txid :: uint256 where
  "test_coin_txid = replicate 32 7"

definition test_coin_block :: uint256 where
  "test_coin_block = replicate 32 9"

definition test_coin_tx :: CTransaction where
  "test_coin_tx =
     \<lparr>nVersion = 1, vin = [],
      vout = [\<lparr>nValue = 5000, scriptPubKey = [172]\<rparr>], nLockTime = 0\<rparr>"

definition test_stake_tx :: "byte \<Rightarrow> byte \<Rightarrow> byte \<Rightarrow> CTransaction" where
  "test_stake_tx src tgt h =
     \<lparr>nVersion = 1,
      vin = [\<lparr>prevout = \<lparr>op_hash = test_coin_txid, op_n = 0\<rparr>, scriptSig = [1]\<rparr>],
      vout = [\<lparr>nValue = 5000, scriptPubKey = [172]\<rparr>,
              \<lparr>nValue = 0, scriptPubKey = [106, src, tgt, h]\<rparr>],
      nLockTime = 0\<rparr>"

definition test_coinbase_tx :: CTransaction where
  "test_coinbase_tx =
     \<lparr>nVersion = 1,
      vin = [\<lparr>prevout = \<lparr>op_hash = uint256_zero, op_n = - 1\<rparr>, scriptSig = []\<rparr>],
      vout = [\<lparr>nValue = 1200, scriptPubKey = [204]\<rparr>],
      nLockTime = 0\<rparr>"

definition test_spend_tx :: CTransaction where
  "test_spend_tx =
     \<lparr>nVersion = 1,
      vin = [\<lparr>prevout = \<lparr>op_hash = replicate 32 5, op_n = 0\<rparr>, scriptSig = [204]\<rparr>],
      vout = [\<lparr>nValue = 1200, scriptPubKey = [172]\<rparr>],
      nLockTime = 0\<rparr>"

definition test_env :: Env where
  "test_env =
     \<lparr>OP_PUSHDATA4 = 78, OP_1 = 81, OP_16 = 96, OP_RETURN = 106, OP_DROP = 117,
      OPRETTYPE_STAKEPARAMS = 2, OPRETTYPE_STAKECHEAT = 3,
      EVAL_COINBASEGUARD = 1, COptCCParams_VERSION = 1,
      nMaxDatacarrierBytes = 8192, VERUS_MIN_STAKEAGE = 5,
      ValidateStakeTransaction_default_validateSig = False,
      IsOpReturn = (\<lambda>s. case s of [] \<Rightarrow> False | b # rest \<Rightarrow> b = 106),
      GetOpretData = (\<lambda>s. case s of [] \<Rightarrow> (False, []) | b # rest \<Rightarrow> (b = 106, [rest])),
      GetOp_seq = (\<lambda>d. case d of
          [src, tgt, h] \<Rightarrow> [GetOp_ok 1 [2], GetOp_ok 1 [src], GetOp_ok 1 [tgt],
                             GetOp_ok 32 (replicate 32 h)]
        | _ \<Rightarrow> [GetOp_fail]),
      push_opcode = (\<lambda>s op. s @ [of_nat op]),
      push_int64 = (\<lambda>s k. s @ [of_nat (80 + k)]),
      push_data = (\<lambda>s d. s @ [of_nat (length d)] @ d),
      CPubKey_IsValid = (\<lambda>k. k \<noteq> []),
      CPubKey_IsFullyValid = (\<lambda>k. k \<noteq> []),
      IsCoinBase = (\<lambda>tx. length (vin tx) = 1 \<and> op_n (prevout (hd (vin tx))) = - 1),
      myGetTransaction =
        (\<lambda>h. if h = test_coin_txid then Some (test_coin_tx, test_coin_block) else None),
      mapBlockIndex = (\<lambda>b. if b = test_coin_block then Some 2 else None),
      Solver =
        (\<lambda>s. if s = [172] then (True, TX_PUBKEY, [[3]]) else (False, TX_NONSTANDARD, [])),
      CurrentEpochBranchId = (\<lambda>h. 0),
      VerifyScript = (\<lambda>sig spk tx v b. sig = [1]),
      VerusHash_outpoint = (\<lambda>h k. map (\<lambda>b. b + ucast k) h),
      CCaddress = [2],
      MakeCC1of2vout = (\<lambda>e v a b. \<lparr>nValue = v, scriptPubKey = [204]\<rparr>),
      COptCCParams_AsVector = (\<lambda>c. [170]),
      COptCCParams_parse =
        (\<lambda>v. \<lparr>ccp_version = 1, ccp_evalCode = 1, ccp_m = 1, ccp_n = 2, ccp_vKeys = [],
              ccp_vData = [test_coin_txid, test_H1, height_bytes 20]\<rparr>),
      COptCCParams_IsValid = (\<lambda>c. ccp_version c \<noteq> 0),
      IsPayToCryptoCondition = (\<lambda>s. (s = [204], [[170]])),
      Serialize_tx = (\<lambda>tx. [of_nat (length (vin tx)), of_nat (length (vout tx))]),
      Unserialize_tx = (\<lambda>v. None),
      GetCryptoCondition = (\<lambda>s. if s = [204] then Some \<lparr>cc_code = 5\<rparr> else None),
      GetCCParams = (\<lambda>tx k. Some (test_coinbase_tx, [], []))\<rparr>"


section \<open>Properties of the codec\<close>







text \<open>Evaluation on the test chain unfolds the model and the chain.\<close>

lemmas codec_defs =
  GetStakeParams_def UnpackStakeOpRet_def nth_checked_def IsData_def
  STAKE_MINPARAMS_def STAKE_MAXPARAMS_def CStakeParams_of_vData_def CStakeParams_cond_def
  CStakeParams_body_def uint256_of_vector_def CStakeParams_default_def
  CStakeParams_IsValid_def CPubKey_null_def uint256_zero_def Let_def

lemmas test_chain_defs =
  test_env_def test_stake_tx_def test_coinbase_tx_def test_coin_tx_def test_coin_txid_def
  test_coin_block_def test_H1_def test_spend_tx_def

lemma test_GetStakeParams_2_20:
  "GetStakeParams test_env (test_stake_tx 2 20 1) CStakeParams_default
     = Inr (True, \<lparr>srcHeight = 2, blkHeight = 20, prevHash = replicate 32 1, pk = []\<rparr>)"
  by (simp add: codec_defs test_chain_defs)




subsection \<open>The data carrier limit\<close>










section \<open>Properties of the validator\<close>

text \<open>\<open>validateSig\<close> is read in one place, the guard of the signature check.\<close>

lemma ValidateStakeTransaction_solved_drop_sig:
  assumes "ValidateStakeTransaction_solved env stakeTx in0 srcOut txType vAddr stakeParams True
             = Inr (True, p)"
  shows "ValidateStakeTransaction_solved env stakeTx in0 srcOut txType vAddr stakeParams False
             = Inr (True, p)"
  using assms
  by (auto simp: ValidateStakeTransaction_solved_def Let_def split: sum.splits if_splits)

lemma test_ValidateStakeTransaction_2_20:
  "ValidateStakeTransaction test_env (test_stake_tx 2 20 1) CStakeParams_default validateSig
     = Inr (True, \<lparr>srcHeight = 2, blkHeight = 20, prevHash = replicate 32 1, pk = [3]\<rparr>)"
  by (simp add: ValidateStakeTransaction_def test_GetStakeParams_2_20)
     (simp add: ValidateStakeTransaction_solved_def test_chain_defs nth_checked_def)

text \<open>
  Claim C9. If \<open>ValidateStakeTransaction\<close> succeeds with the signature check required,
  it succeeds on the same transaction, with the same decoded parameters, when the
  signature check is dropped.
\<close>

theorem C9_validator_monotone:
  assumes "ValidateStakeTransaction env stakeTx stakeParams True = Inr (True, p)"
  shows "ValidateStakeTransaction env stakeTx stakeParams False = Inr (True, p)"
  using assms
  by (auto simp: ValidateStakeTransaction_def
           dest: ValidateStakeTransaction_solved_drop_sig
           split: sum.splits prod.splits option.splits if_splits)

theorem C9_validator_monotone_witness:
  "ValidateStakeTransaction test_env (test_stake_tx 2 20 1) CStakeParams_default True
     = Inr (True, \<lparr>srcHeight = 2, blkHeight = 20, prevHash = replicate 32 1, pk = [3]\<rparr>)
   \<and> ValidateStakeTransaction test_env (test_stake_tx 2 20 1) CStakeParams_default False
     = Inr (True, \<lparr>srcHeight = 2, blkHeight = 20, prevHash = replicate 32 1, pk = [3]\<rparr>)"
  using C9_validator_monotone [OF test_ValidateStakeTransaction_2_20 [of True]]
        test_ValidateStakeTransaction_2_20 [of True]
  by simp

subsection \<open>The stake age\<close>

lemma test_GetStakeParams_2_1:
  "GetStakeParams test_env (test_stake_tx 2 1 1) CStakeParams_default
     = Inr (True, \<lparr>srcHeight = 2, blkHeight = 1, prevHash = replicate 32 1, pk = []\<rparr>)"
  by (simp add: codec_defs test_chain_defs)

text \<open>The age test of the source on a target height below the source height: the
  unsigned difference wraps around and passes any minimum age up to that value.\<close>

lemma stake_age_wraps:
  "(5 :: uint32) \<le> 1 - 2 \<and> unat (1 - 2 :: uint32) = 4294967295"
  by (simp add: unsigned_minus_1_eq_mask mask_eq_exp_minus_1)

lemma stake_age_below_source:
  fixes src blk :: uint32
  assumes "blk < src"
  shows "unat (blk - src) = 2 ^ 32 - (unat src - unat blk)"
  using assms
  by (simp add: unat_sub_if' word_less_nat_alt)

text \<open>So the age test of the source passes for every target height below the source
  height, unless the minimum age is within that distance of \<open>2^32\<close>.\<close>

lemma stake_age_check_below_source:
  fixes src blk minage :: uint32
  assumes "blk < src" and "unat minage + (unat src - unat blk) \<le> 2 ^ 32"
  shows "minage \<le> blk - src"
  using assms by (simp add: word_le_nat_alt stake_age_below_source)

text \<open>
  Claim C5 says that a stake transaction is accepted only if target height minus source
  height, as exact integers, is at least the minimum stake age, so that a target height
  below the source height always fails. On the test chain (minimum age 5) the stake
  transaction that claims source height 2 and target height 1 is accepted: the
  source computes \<open>1 - 2\<close> in \<^verbatim>\<open>uint32_t\<close>, which is \<open>4294967295\<close>.
\<close>

theorem C5_age_check_wraps:
  "ValidateStakeTransaction test_env (test_stake_tx 2 1 1) CStakeParams_default False
     = Inr (True, \<lparr>srcHeight = 2, blkHeight = 1, prevHash = replicate 32 1, pk = [3]\<rparr>)"
  by (simp add: ValidateStakeTransaction_def test_GetStakeParams_2_1)
     (simp add: ValidateStakeTransaction_solved_def test_chain_defs nth_checked_def)

subsection \<open>The out-parameter after a failure\<close>










section \<open>Properties of the detector\<close>

text \<open>The height loop starts from 0 and only shifts, so it returns 0 for every
  chunk.\<close>

lemma MatchingStake_height_zero: "MatchingStake_height bs 0 = 0"
  by (induction bs) simp_all

lemma height_bytes_20: "height_bytes 20 = [20, 0, 0, 0]"
  by (simp add: height_bytes_def upt_rec)

text \<open>
  Claim C3 says that the target height written by \<open>MakeGuardedOutput\<close> as the third
  metadata chunk and the height that \<open>ValidateMatchingStake\<close> reconstructs from that
  chunk are equal. For the target height 20 the chunk is \<open>[20, 0, 0, 0]\<close> and the
  reconstructed height is 0.
\<close>

theorem C3_height_roundtrip_broken:
  "GuardedOutput_vData env in0 (p\<lparr>blkHeight := 20\<rparr>) ! 2 = [20, 0, 0, 0]
   \<and> MatchingStake_height (GuardedOutput_vData env in0 (p\<lparr>blkHeight := 20\<rparr>) ! 2) 0 = 0"
  by (simp add: GuardedOutput_vData_def height_bytes_20 MatchingStake_height_zero)

text \<open>With the reconstructed height always 0, the comparison does not depend on the
  recorded height: a matching coin and a different previous block hash give the
  cheating verdict, whatever the recorded height chunk.\<close>

lemma MatchingStake_compare_cheating:
  assumes "length (vData ! 0) = 32" "length (vData ! 1) = 32"
      and "VerusHash_outpoint env (op_hash (prevout in0)) (op_n (prevout in0)) = vData ! 0"
      and "prevHash p \<noteq> vData ! 1"
  shows "MatchingStake_compare env in0 p vData = Inr (True, True)"
  using assms
  by (simp add: MatchingStake_compare_def MatchingStake_height_zero uint256_of_vector_def)

lemma MatchingStake_compare_same_claim:
  assumes "length (vData ! 0) = 32" "length (vData ! 1) = 32"
      and "VerusHash_outpoint env (op_hash (prevout in0)) (op_n (prevout in0)) = vData ! 0"
      and "prevHash p = vData ! 1"
  shows "MatchingStake_compare env in0 p vData = Inr (blkHeight p = 0, False)"
  using assms
  by (simp add: MatchingStake_compare_def MatchingStake_height_zero uint256_of_vector_def)

text \<open>The same on \<open>ValidateMatchingStake\<close>: for a coinbase whose guarded output records
  the chunks \<open>[fp, ph, hchunk]\<close> and a candidate that validates, the verdict is that of
  the comparison, and it is the same for every recorded height chunk \<open>hchunk\<close>.\<close>

lemma ValidateStakeTransaction_True_vin:
  assumes "ValidateStakeTransaction env stakeTx stakeParams validateSig = Inr (True, p)"
  shows "length (vin stakeTx) = 1"
proof -
  from assms obtain d where "GetStakeParams env stakeTx stakeParams = Inr (True, d)"
    by (auto simp: ValidateStakeTransaction_def split: sum.splits prod.splits if_splits)
  then show ?thesis
    by (auto simp: GetStakeParams_def split: if_splits)
qed

lemma ValidateMatchingStake_to_compare:
  assumes "IsCoinBase env ccTx"
      and "ValidateStakeTransaction env stakeTx CStakeParams_default
             (ValidateStakeTransaction_default_validateSig env) = Inr (True, p)"
      and "unat voutNum < length (vout ccTx)"
      and "IsPayToCryptoCondition env (scriptPubKey (vout ccTx ! unat voutNum)) = (True, vParams)"
      and "vParams \<noteq> []"
      and "COptCCParams_IsValid env (COptCCParams_parse env (vParams ! 0))"
      and "ccp_vData (COptCCParams_parse env (vParams ! 0)) = [fp, ph, hchunk]"
      and "length hchunk \<le> 4"
  shows "ValidateMatchingStake env ccTx voutNum stakeTx
           = MatchingStake_compare env (vin stakeTx ! 0) p [fp, ph, hchunk]"
  using assms ValidateStakeTransaction_True_vin [OF assms(2)]
  by (simp add: ValidateMatchingStake_def nth_checked_def Let_def)

lemma ValidateMatchingStake_cheating_any_height:
  assumes "IsCoinBase env ccTx"
      and "ValidateStakeTransaction env stakeTx CStakeParams_default
             (ValidateStakeTransaction_default_validateSig env) = Inr (True, p)"
      and "unat voutNum < length (vout ccTx)"
      and "IsPayToCryptoCondition env (scriptPubKey (vout ccTx ! unat voutNum)) = (True, vParams)"
      and "vParams \<noteq> []"
      and "COptCCParams_IsValid env (COptCCParams_parse env (vParams ! 0))"
      and "ccp_vData (COptCCParams_parse env (vParams ! 0)) = [fp, ph, hchunk]"
      and "length hchunk \<le> 4"
      and "length fp = 32" and "length ph = 32"
      and "VerusHash_outpoint env (op_hash (prevout (vin stakeTx ! 0)))
             (op_n (prevout (vin stakeTx ! 0))) = fp"
      and "prevHash p \<noteq> ph"
  shows "ValidateMatchingStake env ccTx voutNum stakeTx = Inr (True, True)"
  unfolding ValidateMatchingStake_to_compare [OF assms(1-8)]
  using assms(9-12) by (simp add: MatchingStake_compare_cheating)

lemma ValidateMatchingStake_same_claim:
  assumes "IsCoinBase env ccTx"
      and "ValidateStakeTransaction env stakeTx CStakeParams_default
             (ValidateStakeTransaction_default_validateSig env) = Inr (True, p)"
      and "unat voutNum < length (vout ccTx)"
      and "IsPayToCryptoCondition env (scriptPubKey (vout ccTx ! unat voutNum)) = (True, vParams)"
      and "vParams \<noteq> []"
      and "COptCCParams_IsValid env (COptCCParams_parse env (vParams ! 0))"
      and "ccp_vData (COptCCParams_parse env (vParams ! 0)) = [fp, ph, hchunk]"
      and "length hchunk \<le> 4"
      and "length fp = 32" and "length ph = 32"
      and "VerusHash_outpoint env (op_hash (prevout (vin stakeTx ! 0)))
             (op_n (prevout (vin stakeTx ! 0))) = fp"
      and "prevHash p = ph"
  shows "ValidateMatchingStake env ccTx voutNum stakeTx = Inr (blkHeight p = 0, False)"
  unfolding ValidateMatchingStake_to_compare [OF assms(1-8)]
  using assms(9-12) by (simp add: MatchingStake_compare_same_claim)

lemma ValidateMatchingStake_cheating_matches:
  "ValidateMatchingStake env ccTx voutNum stakeTx = Inr (matches, True) \<Longrightarrow> matches"
  by (auto simp: ValidateMatchingStake_def MatchingStake_compare_def Let_def
           split: sum.splits prod.splits if_splits)

lemmas detector_defs =
  MatchingStake_compare_def MatchingStake_height_zero uint256_of_vector_def nth_checked_def
  height_bytes_20

lemma test_GetStakeParams_2_10:
  "GetStakeParams test_env (test_stake_tx 2 10 2) CStakeParams_default
     = Inr (True, \<lparr>srcHeight = 2, blkHeight = 10, prevHash = replicate 32 2, pk = []\<rparr>)"
  by (simp add: codec_defs test_chain_defs)

lemma test_ValidateStakeTransaction_2_10:
  "ValidateStakeTransaction test_env (test_stake_tx 2 10 2) CStakeParams_default validateSig
     = Inr (True, \<lparr>srcHeight = 2, blkHeight = 10, prevHash = replicate 32 2, pk = [3]\<rparr>)"
  by (simp add: ValidateStakeTransaction_def test_GetStakeParams_2_10)
     (simp add: ValidateStakeTransaction_solved_def test_chain_defs nth_checked_def)



lemma test_recorded_claim:
  "ccp_vData (COptCCParams_parse test_env v) = [replicate 32 7, replicate 32 1, [20, 0, 0, 0]]"
  by (simp add: test_chain_defs height_bytes_20)

text \<open>The metadata of the guarded output of the test chain is what the builder records
  for the stake claim (2, 20, \<open>test_H1\<close>).\<close>

lemma test_recorded_claim_is_built:
  "GuardedOutput_vData test_env (vin (test_stake_tx 2 20 1) ! 0)
       \<lparr>srcHeight = 2, blkHeight = 20, prevHash = replicate 32 1, pk = []\<rparr>
     = ccp_vData (COptCCParams_parse test_env v)"
  by (simp add: GuardedOutput_vData_def test_chain_defs)

lemma test_MakeGuardedOutput:
  "MakeGuardedOutput test_env 1200 [3] (test_stake_tx 2 20 1)
     = Inr (True, \<lparr>nValue = 1200, scriptPubKey = [204, 1, 170, 117]\<rparr>)"
  unfolding MakeGuardedOutput_def test_GetStakeParams_2_20
  by (simp add: test_chain_defs nth_checked_def)


lemma test_ValidateMatchingStake_2_20:
  "ValidateMatchingStake test_env test_coinbase_tx 0 (test_stake_tx 2 20 1) = Inr (False, False)"
  unfolding ValidateMatchingStake_def test_ValidateStakeTransaction_2_20
  by (simp add: test_chain_defs detector_defs)

text \<open>
  Claim C2 says that for a candidate on the recorded coin, a different previous block
  hash and a target height at or above the recorded one give the verdict matches and
  cheating, and that a target height strictly below the recorded one never gives
  cheating. The guarded output of the test chain records the target height 20; the
  candidate on the same coin with another previous block hash and the target height
  10 gets the verdict matches and cheating.
\<close>

theorem C2_cheating_below_recorded_height:
  "ccp_vData (COptCCParams_parse test_env [170]) ! 2 = height_bytes 20
   \<and> ValidateMatchingStake test_env test_coinbase_tx 0 (test_stake_tx 2 10 2)
       = Inr (True, True)"
proof -
  have "ValidateMatchingStake test_env test_coinbase_tx 0 (test_stake_tx 2 10 2)
          = Inr (True, True)"
    unfolding ValidateMatchingStake_def test_ValidateStakeTransaction_2_10
    by (simp add: test_chain_defs detector_defs)
  then show ?thesis by (simp add: test_chain_defs)
qed

text \<open>
  Claim C4 says that the identical stake claim, submitted again, gets the verdict
  matches without cheating, and that no evidence is attached. On the test chain the
  claim (source 2, target 20, \<open>test_H1\<close>) is the recorded one; submitted again it
  gets the verdict no match and no cheating. No evidence is attached.
\<close>

theorem C4_same_claim_does_not_match:
  "ValidateMatchingStake test_env test_coinbase_tx 0 (test_stake_tx 2 20 1)
     = Inr (False, False)
   \<and> MakeCheatEvidence test_env test_spend_tx test_coinbase_tx 0 (test_stake_tx 2 20 1)
     = Inr test_spend_tx"
  by (simp add: MakeCheatEvidence_def test_ValidateMatchingStake_2_20)

section \<open>Properties of the evidence builder\<close>



section \<open>Properties of the authorizer\<close>

text \<open>\<open>signedByFirstKey\<close> is the constant \<^verbatim>\<open>true\<close>: the cheat block is never entered
  and the return value \<open>signedByFirstKey \<or> validCheat\<close> is never false.\<close>

lemma CoinbaseGuardValidate_cheat_signed:
  "CoinbaseGuardValidate_cheat env tx txOut params True = Inr False"
  by (simp add: CoinbaseGuardValidate_cheat_def)

lemma CoinbaseGuardValidate_never_rejects:
  "CoinbaseGuardValidate env tx nIn \<noteq> Inr False"
  by (auto simp: CoinbaseGuardValidate_def CoinbaseGuardValidate_cheat_signed Let_def
           split: sum.splits option.splits prod.splits if_splits)

text \<open>
  Claim C1 says that the spend is authorized if and only if the fulfillment was
  produced by the destination key's branch or the attached evidence deserializes to a
  candidate for which the detector returns matches and cheating, and is rejected
  otherwise. \<open>test_spend_tx\<close> spends the guarded output with a fulfillment and no
  evidence parameters at all; the source never looks at which key signed the
  fulfillment, and authorizes.
\<close>

theorem C1_authorized_without_evidence:
  "GetCCParams test_env test_spend_tx 0 = Some (test_coinbase_tx, [], [])
   \<and> CoinbaseGuardValidate test_env test_spend_tx 0 = Inr True"
  by (simp add: CoinbaseGuardValidate_def CoinbaseGuardValidate_cheat_signed nth_checked_def
        test_env_def test_spend_tx_def)

end
